theory Spec2Isabelle
  imports Complex_Main
begin

section \<open>Python values, exceptions and printed output\<close>

text \<open>
  The two scripts (\<^verbatim>\<open>System_Agents.py\<close> and \<^verbatim>\<open>Bitcoin_price.py\<close>) talk to the outside
  only through library calls (\<^verbatim>\<open>psutil\<close>, \<^verbatim>\<open>time\<close>, \<^verbatim>\<open>datetime\<close>, \<^verbatim>\<open>requests\<close>) and
  through \<^verbatim>\<open>print\<close>. A library call is an input of the model: what it returned, or the
  exception it raised. Printed output is a result of the model: the list of printed lines.

  A Python number is modelled by its exact value, a rational: every finite float is one,
  and Python compares an int with a float by value. Arithmetic of the model is exact.
\<close>

datatype exc_class =
    KeyboardInterrupt | SystemExit
  | RequestException | KeyError | ValueError | TypeError | OSError | RuntimeError

text \<open>
  \<^verbatim>\<open>KeyboardInterrupt\<close> and \<^verbatim>\<open>SystemExit\<close> derive from \<^verbatim>\<open>BaseException\<close> only; the
  other classes derive from \<^verbatim>\<open>Exception\<close>, so \<^verbatim>\<open>except Exception\<close> catches them.
\<close>

fun is_Exception :: "exc_class \<Rightarrow> bool" where
  "is_Exception KeyboardInterrupt = False"
| "is_Exception SystemExit = False"
| "is_Exception _ = True"

text \<open>An exception object: its class and the text \<^verbatim>\<open>str(e)\<close>.\<close>

datatype pyexc = Exc (exc_cls: exc_class) (exc_msg: string)

datatype 'a result = Returned 'a | Raised pyexc

datatype pyval =
    PNone | PBool bool | PInt int | PFloat rat | PStr string
  | PList "pyval list" | PDict "(string \<times> pyval) list"

text \<open>
  One \<^verbatim>\<open>print(f"...")\<close> is one line, a list of fragments: text that the source fixes
  (literals and \<^verbatim>\<open>{x:.1f}\<close> fields, rendered below), and \<^verbatim>\<open>{x}\<close> fields of a number or
  a parsed value, kept as the value that \<^verbatim>\<open>str\<close> would render.
\<close>

datatype frag = Lit string | Val pyval

type_synonym line = "frag list"

subsection \<open>The format \<^verbatim>\<open>.1f\<close>\<close>

text \<open>
  \<^verbatim>\<open>format(x, ".1f")\<close> rounds the exact value of \<open>x\<close> to the nearest tenth, a tie to the
  even tenth, and keeps the sign of a negative \<open>x\<close> also when the digits are \<^verbatim>\<open>0.0\<close>.
\<close>

definition round_half_even :: "rat \<Rightarrow> int" where
  "round_half_even x =
     (let f = \<lfloor>x\<rfloor>; d = x - of_int f
      in if d < 1 / 2 then f else if 1 / 2 < d then f + 1
         else if even f then f else f + 1)"

definition digit_char :: "nat \<Rightarrow> char" where
  "digit_char n = ''0123456789'' ! n"

fun str_nat :: "nat \<Rightarrow> string" where
  "str_nat n = (if n < 10 then [digit_char n] else str_nat (n div 10) @ [digit_char (n mod 10)])"

declare str_nat.simps [simp del]

definition tenths :: "rat \<Rightarrow> nat" where
  "tenths x = nat (round_half_even (\<bar>x\<bar> * 10))"

definition format_1f :: "rat \<Rightarrow> string" where
  "format_1f x =
     (if x < 0 then ''-'' else []) @ str_nat (tenths x div 10) @ ''.'' @ [digit_char (tenths x mod 10)]"

section \<open>\<^verbatim>\<open>System_Agents.py\<close>: class \<^verbatim>\<open>SystemMonitorAgent\<close>\<close>

record agent =
  cpu_threshold :: rat
  check_interval :: int
  is_monitoring :: bool

text \<open>\<^verbatim>\<open>__init__\<close>: stores the two arguments as given, clears the flag, prints three lines.\<close>

definition SystemMonitorAgent_init :: "rat \<Rightarrow> int \<Rightarrow> agent result \<times> line list" where
  "SystemMonitorAgent_init threshold interval =
     (Returned \<lparr>cpu_threshold = threshold, check_interval = interval, is_monitoring = False\<rparr>,
      [[Lit ''SystemMonitorAgent initialized:''],
       [Lit ''  - CPU Threshold: '', Val (PFloat threshold), Lit ''%''],
       [Lit ''  - Check Interval: '', Val (PInt interval), Lit '' seconds'']])"

definition newline :: char where
  "newline = CHR 0x0A"

definition rule60 :: string where
  "rule60 = replicate 60 (CHR ''='')"

definition alert_high_cpu :: "agent \<Rightarrow> rat \<Rightarrow> string \<Rightarrow> line list" where
  "alert_high_cpu self cpu_usage timestamp =
     [[Lit (newline # rule60)],
      [Lit ''ALERT: High CPU Usage Detected!''],
      [Lit (''Time: '' @ timestamp)],
      [Lit (''CPU Usage: '' @ format_1f cpu_usage @ ''% (Threshold: ''),
         Val (PFloat (cpu_threshold self)), Lit ''%)''],
      [Lit (''Excess: '' @ format_1f (cpu_usage - cpu_threshold self) @ ''% above threshold'')],
      [Lit (rule60 @ [newline])]]"

definition normal_line :: "string \<Rightarrow> rat \<Rightarrow> line" where
  "normal_line current_time cpu_usage =
     [Lit (''['' @ current_time @ ''] CPU usage normal: '' @ format_1f cpu_usage @ ''%'')]"

definition stop_monitoring :: "agent \<Rightarrow> agent \<times> line list" where
  "stop_monitoring self = (self\<lparr>is_monitoring := False\<rparr>, [[Lit ''Monitoring agent stopped'']])"

subsection \<open>The monitoring loop\<close>

text \<open>
  What one pass of the loop of \<^verbatim>\<open>monitor_cpu\<close> receives from outside:
  the outcome of \<^verbatim>\<open>psutil.cpu_percent(interval=1)\<close>, the text of
  \<^verbatim>\<open>datetime.now().strftime(...)\<close>, the outcome of \<^verbatim>\<open>time.sleep\<close> when its argument
  is accepted (it returns, or an interrupt arrives while it blocks), and whether another
  thread calls \<^verbatim>\<open>stop_monitoring\<close> while the pass blocks in the sample or in the sleep.
\<close>

datatype stop_point = DuringSample | DuringSleep

record cycle_env =
  cpu_percent :: "rat result"
  now :: string
  sleep :: "unit result"
  stop_request :: "stop_point option"

definition other_thread :: "stop_point \<Rightarrow> cycle_env \<Rightarrow> agent \<Rightarrow> agent \<times> line list" where
  "other_thread p c self = (if stop_request c = Some p then stop_monitoring self else (self, []))"

text \<open>The body of \<^verbatim>\<open>while self.is_monitoring:\<close>, lines 51 to 62.
  \<^verbatim>\<open>time.sleep\<close> raises \<^verbatim>\<open>ValueError\<close> on a negative argument before it blocks.\<close>

definition cycle :: "agent \<Rightarrow> cycle_env \<Rightarrow> unit result \<times> agent \<times> line list" where
  "cycle self c =
     (let (self1, out1) = other_thread DuringSample c self
      in case cpu_percent c of
           Raised e \<Rightarrow> (Raised e, self1, out1)
         | Returned cpu_usage \<Rightarrow>
             (let current_time = now c;
                  out2 = (if cpu_usage > cpu_threshold self1
                          then alert_high_cpu self1 cpu_usage current_time
                          else [normal_line current_time cpu_usage])
              in if check_interval self1 < 0
                 then (Raised (Exc ValueError ''sleep length must be non-negative''),
                       self1, out1 @ out2)
                 else (let (self2, out3) = other_thread DuringSleep c self1
                       in (sleep c, self2, out1 @ out2 @ out3))))"

text \<open>
  The loop runs over a finite trace of passes. \<open>None\<close> says that the flag was still set
  when the trace ended: the loop has not left within the trace. A pass that raises leaves
  the loop with the exception; the flag found cleared at the loop top leaves it normally.
\<close>

fun monitor_loop :: "agent \<Rightarrow> cycle_env list \<Rightarrow> (unit result \<times> agent \<times> line list) option" where
  "monitor_loop self [] = (if is_monitoring self then None else Some (Returned (), self, []))"
| "monitor_loop self (c # cs) =
     (if is_monitoring self then
        (case cycle self c of
           (Raised e, self', out) \<Rightarrow> Some (Raised e, self', out)
         | (Returned _, self', out) \<Rightarrow>
             map_option (\<lambda>(r, s, out'). (r, s, out @ out')) (monitor_loop self' cs))
      else Some (Returned (), self, []))"

definition monitor_cpu :: "agent \<Rightarrow> cycle_env list \<Rightarrow> (unit result \<times> agent \<times> line list) option" where
  "monitor_cpu self env =
     (let self0 = self\<lparr>is_monitoring := True\<rparr>;
          out0 = [[Lit ''Starting CPU monitoring (threshold: '',
                     Val (PFloat (cpu_threshold self0)), Lit ''%)...''],
                  [Lit ''Press Ctrl+C to stop monitoring'']]
      in case monitor_loop self0 env of
           None \<Rightarrow> None
         | Some (Returned _, self1, out) \<Rightarrow> Some (Returned (), self1, out0 @ out)
         | Some (Raised e, self1, out) \<Rightarrow>
             if exc_cls e = KeyboardInterrupt then
               Some (Returned (), self1\<lparr>is_monitoring := False\<rparr>,
                     out0 @ out @ [[Lit (newline # ''Monitoring stopped by user'')]])
             else if is_Exception (exc_cls e) then
               Some (Returned (), self1\<lparr>is_monitoring := False\<rparr>,
                     out0 @ out @ [[Lit (''Error during monitoring: '' @ exc_msg e)]])
             else Some (Raised e, self1, out0 @ out))"

subsection \<open>Reading the system\<close>

record scpufreq =
  freq_current :: rat

record svmem =
  vm_total :: int
  vm_available :: int
  vm_percent :: rat
  vm_free :: int

record sdiskusage =
  du_total :: int
  du_free :: int

text \<open>The four \<^verbatim>\<open>psutil\<close> queries; \<^verbatim>\<open>cpu_count\<close> and \<^verbatim>\<open>cpu_freq\<close> may return \<^verbatim>\<open>None\<close>.\<close>

record os_metrics =
  cpu_count :: "int option result"
  cpu_freq :: "scpufreq option result"
  virtual_memory :: "svmem result"
  disk_usage :: "sdiskusage result"

fun bind_result :: "'a result \<Rightarrow> ('a \<Rightarrow> 'b result) \<Rightarrow> 'b result" where
  "bind_result (Returned x) f = f x"
| "bind_result (Raised e) f = Raised e"

definition get_system_info :: "agent \<Rightarrow> os_metrics \<Rightarrow> pyval result \<times> agent" where
  "get_system_info self os =
     (bind_result (cpu_count os) (\<lambda>cpu_count.
      bind_result (cpu_freq os) (\<lambda>cpu_freq.
      bind_result (virtual_memory os) (\<lambda>memory.
      bind_result (disk_usage os) (\<lambda>disk.
        Returned (PDict
          [(''cpu_count'', case cpu_count of Some n \<Rightarrow> PInt n | None \<Rightarrow> PNone),
           (''cpu_frequency'',
              case cpu_freq of Some f \<Rightarrow> PFloat (freq_current f) | None \<Rightarrow> PStr ''N/A''),
           (''memory_total'', PInt (vm_total memory)),
           (''memory_available'', PInt (vm_available memory)),
           (''disk_total'', PInt (du_total disk)),
           (''disk_free'', PInt (du_free disk))]))))),
      self)"


subsection \<open>Subscripts and division on Python values\<close>

definition quoted :: "string \<Rightarrow> string" where
  "quoted s = CHR 0x27 # s @ [CHR 0x27]"

definition not_subscriptable :: "string \<Rightarrow> pyexc" where
  "not_subscriptable ty = Exc TypeError (quoted ty @ '' object is not subscriptable'')"

text \<open>\<^verbatim>\<open>v[k]\<close> for a string key \<open>k\<close>: only a dict has string keys, and a missing one is a
  \<^verbatim>\<open>KeyError\<close> whose text is the quoted key.\<close>

fun getitem :: "pyval \<Rightarrow> string \<Rightarrow> pyval result" where
  "getitem (PDict d) k =
     (case map_of d k of Some v \<Rightarrow> Returned v | None \<Rightarrow> Raised (Exc KeyError (quoted k)))"
| "getitem (PList _) k = Raised (Exc TypeError ''list indices must be integers or slices, not str'')"
| "getitem (PStr _) k = Raised (Exc TypeError ''string indices must be integers'')"
| "getitem PNone k = Raised (not_subscriptable ''NoneType'')"
| "getitem (PBool _) k = Raised (not_subscriptable ''bool'')"
| "getitem (PInt _) k = Raised (not_subscriptable ''int'')"
| "getitem (PFloat _) k = Raised (not_subscriptable ''float'')"


subsection \<open>\<^verbatim>\<open>monitor_system\<close>\<close>

text \<open>A statement that prints: the argument of \<^verbatim>\<open>print\<close> is evaluated first, and nothing
  is printed when that raises. Statements in sequence stop at the first that raises.\<close>

fun print_line :: "line result \<Rightarrow> unit result \<times> line list" where
  "print_line (Returned l) = (Returned (), [l])"
| "print_line (Raised e) = (Raised e, [])"




section \<open>\<^verbatim>\<open>Bitcoin_price.py\<close>: class \<^verbatim>\<open>BitcoinPriceAgent\<close>\<close>

record bitcoin_agent =
  api_url :: string

text \<open>A response of \<^verbatim>\<open>requests.get\<close>: its status code, and what \<^verbatim>\<open>response.json()\<close>
  does when it is called: the parsed body, or the exception of a body that is not JSON.\<close>

record response =
  status_code :: int
  json :: "pyval result"

definition BitcoinPriceAgent_init :: "string \<Rightarrow> bitcoin_agent" where
  "BitcoinPriceAgent_init url = \<lparr>api_url = url\<rparr>"

text \<open>The body of the \<^verbatim>\<open>try\<close>, lines 38 to 53.\<close>

definition fetch_body :: "bitcoin_agent \<Rightarrow> (string \<Rightarrow> response result) \<Rightarrow> unit result \<times> line list" where
  "fetch_body self requests_get =
     (case requests_get (api_url self) of
        Raised e \<Rightarrow> (Raised e, [])
      | Returned response \<Rightarrow>
          if status_code response = 200 then
            print_line
              (bind_result (json response) (\<lambda>data.
               bind_result (getitem data ''bpi'') (\<lambda>bpi.
               bind_result (getitem bpi ''USD'') (\<lambda>usd.
               bind_result (getitem usd ''rate_float'') (\<lambda>bitcoin_price.
                 Returned [Lit ''Current Bitcoin Price (USD): $'', Val bitcoin_price])))))
          else
            (Returned (),
             [[Lit ''API request failed with status code: '', Val (PInt (status_code response))],
              [Lit ''Failed to fetch Bitcoin price. Please check the API.'']]))"

text \<open>The three handlers, in the order of the source; an exception that no handler
  matches leaves the method.\<close>

definition fetch_bitcoin_price ::
  "bitcoin_agent \<Rightarrow> (string \<Rightarrow> response result) \<Rightarrow> unit result \<times> line list" where
  "fetch_bitcoin_price self requests_get =
     (case fetch_body self requests_get of
        (Returned _, out) \<Rightarrow> (Returned (), out)
      | (Raised e, out) \<Rightarrow>
          if exc_cls e = RequestException then
            (Returned (), out @ [[Lit (''Network error occurred: '' @ exc_msg e)]])
          else if exc_cls e = KeyError then
            (Returned (), out @ [[Lit (''Data parsing error: Expected field not found - '' @ exc_msg e)]])
          else if is_Exception (exc_cls e) then
            (Returned (), out @ [[Lit (''An unexpected error occurred: '' @ exc_msg e)]])
          else (Raised e, out))"

section \<open>Predicates on traces and output\<close>

text \<open>An alert is in the output when its headline is.\<close>

definition is_alert :: "line list \<Rightarrow> bool" where
  "is_alert out = ([Lit ''ALERT: High CPU Usage Detected!''] \<in> set out)"


text \<open>A pass is quiet when the sample and the sleep return and no stop is requested.\<close>

definition quiet :: "cycle_env \<Rightarrow> bool" where
  "quiet c = ((case cpu_percent c of Returned _ \<Rightarrow> True | Raised _ \<Rightarrow> False) \<and>
              sleep c = Returned () \<and> stop_request c = None)"



text \<open>The lines that a pass prints.\<close>

definition cycle_lines :: "agent \<Rightarrow> cycle_env \<Rightarrow> line list" where
  "cycle_lines self c = snd (snd (cycle self c))"

text \<open>The event of a sample: the alert block or the normal line (lines 56 to 59).\<close>

definition sample_event :: "agent \<Rightarrow> string \<Rightarrow> rat \<Rightarrow> line list" where
  "sample_event self ts S =
     (if cpu_threshold self < S then alert_high_cpu self S ts else [normal_line ts S])"

text \<open>The two lines that \<^verbatim>\<open>monitor_cpu\<close> prints before the loop.\<close>

definition starting_lines :: "agent \<Rightarrow> line list" where
  "starting_lines self =
     [[Lit ''Starting CPU monitoring (threshold: '', Val (PFloat (cpu_threshold self)), Lit ''%)...''],
      [Lit ''Press Ctrl+C to stop monitoring'']]"

text \<open>A library call that raises, if it raises, an instance of \<^verbatim>\<open>Exception\<close>.\<close>

definition raises_Exception_only :: "'a result \<Rightarrow> bool" where
  "raises_Exception_only r =
     (case r of Raised e \<Rightarrow> is_Exception (exc_cls e) | Returned _ \<Rightarrow> True)"

section \<open>Properties of the monitoring cycle\<close>

lemma rule60_Cons: "rule60 = CHR ''='' # replicate 59 (CHR ''='')"
  by (simp add: rule60_def numeral_eq_Suc)

lemma is_alert_Nil: "\<not> is_alert []"
  by (simp add: is_alert_def)

lemma is_alert_Cons:
  "is_alert (l # ls) \<longleftrightarrow> l = [Lit ''ALERT: High CPU Usage Detected!''] \<or> is_alert ls"
  by (auto simp: is_alert_def)

lemma is_alert_append: "is_alert (xs @ ys) \<longleftrightarrow> is_alert xs \<or> is_alert ys"
  by (auto simp: is_alert_def)

lemma is_alert_alert_high_cpu: "is_alert (alert_high_cpu self s ts)"
  by (simp add: is_alert_def alert_high_cpu_def)

lemma normal_line_not_alert: "normal_line ts s \<noteq> [Lit ''ALERT: High CPU Usage Detected!'']"
  by (simp add: normal_line_def)

lemma normal_line_notin_alert: "normal_line ts s \<notin> set (alert_high_cpu self s' ts')"
  by (simp add: normal_line_def alert_high_cpu_def rule60_Cons newline_def)

lemma cpu_threshold_other_thread:
  "cpu_threshold (fst (other_thread p c self)) = cpu_threshold self"
  by (simp add: other_thread_def stop_monitoring_def)

lemma not_is_alert_other_thread: "\<not> is_alert (snd (other_thread p c self))"
  by (simp add: other_thread_def stop_monitoring_def is_alert_def)

lemma normal_line_notin_other_thread: "normal_line ts s \<notin> set (snd (other_thread p c self))"
  by (simp add: other_thread_def normal_line_def stop_monitoring_def)

text \<open>
  C1. In a pass of the loop whose sample is \<open>S\<close>, against the threshold \<open>T\<close> of the agent:
  the alert is printed if and only if \<open>T < S\<close>, the normal line is printed if and only if
  not \<open>T < S\<close>, and at \<open>S = T\<close> the normal line is printed and no alert.
\<close>

theorem alert_iff_sample_exceeds_threshold:
  assumes "cpu_percent c = Returned S"
  shows "(is_alert (snd (snd (cycle self c))) \<longleftrightarrow> cpu_threshold self < S) \<and>
         (normal_line (now c) S \<in> set (snd (snd (cycle self c))) \<longleftrightarrow> \<not> cpu_threshold self < S) \<and>
         (S = cpu_threshold self \<longrightarrow>
            \<not> is_alert (snd (snd (cycle self c))) \<and>
            normal_line (now c) S \<in> set (snd (snd (cycle self c))))"
  using assms
  by (auto simp: cycle_def Let_def split_beta is_alert_append is_alert_alert_high_cpu
      is_alert_Cons is_alert_Nil normal_line_not_alert not_is_alert_other_thread
      cpu_threshold_other_thread normal_line_notin_alert normal_line_notin_other_thread)

theorem alert_iff_sample_exceeds_threshold_witness:
  "cpu_percent \<lparr>cpu_percent = Returned 15, now = ''2024-01-01 00:00:00'',
                 sleep = Returned (), stop_request = None\<rparr> = Returned 15 \<and>
   is_alert (snd (snd (cycle \<lparr>cpu_threshold = 10, check_interval = 10, is_monitoring = True\<rparr>
      \<lparr>cpu_percent = Returned 15, now = ''2024-01-01 00:00:00'',
        sleep = Returned (), stop_request = None\<rparr>)))"
  using alert_iff_sample_exceeds_threshold
    [of "\<lparr>cpu_percent = Returned 15, now = ''2024-01-01 00:00:00'',
          sleep = Returned (), stop_request = None\<rparr>" 15
        "\<lparr>cpu_threshold = 10, check_interval = 10, is_monitoring = True\<rparr>"]
  by simp

section \<open>Properties of the constructor\<close>

text \<open>
  C2, as stated, fails: \<^verbatim>\<open>__init__\<close> has no validation. Built with the interval \<open>0\<close> and
  with the interval \<open>-5\<close>, the agent is returned with that interval stored.
\<close>

theorem init_accepts_nonpositive_interval_counterexample:
  "fst (SystemMonitorAgent_init 75 0) =
     Returned \<lparr>cpu_threshold = 75, check_interval = 0, is_monitoring = False\<rparr> \<and>
   fst (SystemMonitorAgent_init 75 (- 5)) =
     Returned \<lparr>cpu_threshold = 75, check_interval = - 5, is_monitoring = False\<rparr>"
  by (simp add: SystemMonitorAgent_init_def)

text \<open>
  C2, amended: construction succeeds for every threshold and every interval, also a
  non-positive one, and stores both unchanged with the flag cleared; nothing is checked
  when the agent is configured.
\<close>

theorem init_stores_any_interval:
  "fst (SystemMonitorAgent_init threshold interval) =
     Returned \<lparr>cpu_threshold = threshold, check_interval = interval, is_monitoring = False\<rparr>"
  by (simp add: SystemMonitorAgent_init_def)


section \<open>Properties of the alert\<close>









section \<open>Properties of the monitoring loop\<close>

lemma alert_high_cpu_flag [simp]:
  "alert_high_cpu (self\<lparr>is_monitoring := b\<rparr>) s ts = alert_high_cpu self s ts"
  by (simp add: alert_high_cpu_def)

lemma cycle_quiet:
  assumes "quiet c" and "0 \<le> check_interval self"
  shows "cycle self c = (Returned (), self, cycle_lines self c)"
  using assms
  by (auto simp: quiet_def cycle_lines_def cycle_def other_thread_def Let_def split: result.splits)

lemma cycle_lines_flag: "cycle_lines (self\<lparr>is_monitoring := b\<rparr>) = cycle_lines self"
  by (rule ext) (auto simp: cycle_lines_def cycle_def other_thread_def stop_monitoring_def Let_def
      split: result.splits)

lemma cycle_agent:
  "cycle self c = (r, s, out) \<Longrightarrow> s = self \<or> s = self\<lparr>is_monitoring := False\<rparr>"
  by (auto simp: cycle_def other_thread_def stop_monitoring_def Let_def
      split: result.splits if_splits)




lemma loop_quiet_prefix:
  assumes "is_monitoring self" and "0 \<le> check_interval self" and "\<forall>p\<in>set pre. quiet p"
  shows "monitor_loop self (pre @ cs) =
         map_option (\<lambda>(r, s, out'). (r, s, concat (map (cycle_lines self) pre) @ out'))
           (monitor_loop self cs)"
  using assms(3)
proof (induction pre)
  case Nil
  show ?case by (simp add: option.map_ident split_def)
next
  case (Cons p pre)
  then have "quiet p" and IH: "monitor_loop self (pre @ cs) =
         map_option (\<lambda>(r, s, out'). (r, s, concat (map (cycle_lines self) pre) @ out'))
           (monitor_loop self cs)" by simp_all
  from cycle_quiet [OF \<open>quiet p\<close> assms(2)] assms(1) IH show ?case
    by (simp add: option.map_comp comp_def split_def)
qed

lemma loop_Returned_flag:
  "monitor_loop self env = Some (Returned u, s, out) \<Longrightarrow> \<not> is_monitoring s"
proof (induction env arbitrary: self out)
  case Nil
  then show ?case by (simp split: if_splits)
next
  case (Cons c env)
  show ?case
  proof (cases "is_monitoring self")
    case False
    with Cons.prems show ?thesis by simp
  next
    case True
    obtain r s' out' where c: "cycle self c = (r, s', out')" by (cases "cycle self c") auto
    with True Cons.prems obtain u' out'' where "r = Returned u'"
      "monitor_loop s' env = Some (Returned u, s, out'')"
      by (cases r) auto
    then show ?thesis using Cons.IH by blast
  qed
qed



lemma monitor_cpu_eq:
  "monitor_cpu self env =
     (case monitor_loop (self\<lparr>is_monitoring := True\<rparr>) env of
        None \<Rightarrow> None
      | Some (Returned _, s, out) \<Rightarrow> Some (Returned (), s, starting_lines self @ out)
      | Some (Raised e, s, out) \<Rightarrow>
          if exc_cls e = KeyboardInterrupt then
            Some (Returned (), s\<lparr>is_monitoring := False\<rparr>,
                  starting_lines self @ out @ [[Lit (newline # ''Monitoring stopped by user'')]])
          else if is_Exception (exc_cls e) then
            Some (Returned (), s\<lparr>is_monitoring := False\<rparr>,
                  starting_lines self @ out @ [[Lit (''Error during monitoring: '' @ exc_msg e)]])
          else Some (Raised e, s, starting_lines self @ out))"
  by (auto simp: monitor_cpu_def starting_lines_def Let_def split: option.splits result.splits)

text \<open>
  C10. Whenever \<^verbatim>\<open>monitor_cpu\<close> returns, by the flag found cleared at the loop top or
  through one of its two handlers, the flag \<^verbatim>\<open>is_monitoring\<close> is false in the agent that
  it leaves.
\<close>

theorem returns_with_flag_cleared:
  "monitor_cpu self env = Some (Returned u, s, out) \<Longrightarrow> \<not> is_monitoring s"
  by (auto simp: monitor_cpu_eq split: option.splits result.splits if_splits
      dest: loop_Returned_flag)

theorem returns_with_flag_cleared_witness:
  "monitor_cpu \<lparr>cpu_threshold = 10, check_interval = 10, is_monitoring = False\<rparr> [\<lparr>cpu_percent = Returned 5, now = ''12:00:11'',
      sleep = Raised (Exc KeyboardInterrupt []), stop_request = None\<rparr>] =
     Some (Returned (), \<lparr>cpu_threshold = 10, check_interval = 10, is_monitoring = False\<rparr>,
       [[Lit ''Starting CPU monitoring (threshold: '', Val (PFloat 10), Lit ''%)...''],
        [Lit ''Press Ctrl+C to stop monitoring''],
        [Lit ''[12:00:11] CPU usage normal: 5.0%''],
        [Lit (newline # ''Monitoring stopped by user'')]]) \<and>
   \<not> is_monitoring \<lparr>cpu_threshold = 10, check_interval = 10, is_monitoring = False\<rparr>"
proof -
  have run: "monitor_cpu \<lparr>cpu_threshold = 10, check_interval = 10, is_monitoring = False\<rparr> [\<lparr>cpu_percent = Returned 5, now = ''12:00:11'',
      sleep = Raised (Exc KeyboardInterrupt []), stop_request = None\<rparr>] =
     Some (Returned (), \<lparr>cpu_threshold = 10, check_interval = 10, is_monitoring = False\<rparr>,
       [[Lit ''Starting CPU monitoring (threshold: '', Val (PFloat 10), Lit ''%)...''],
        [Lit ''Press Ctrl+C to stop monitoring''],
        [Lit ''[12:00:11] CPU usage normal: 5.0%''],
        [Lit (newline # ''Monitoring stopped by user'')]])"
    by code_simp
  from returns_with_flag_cleared [OF run] run show ?thesis by simp
qed



text \<open>
  C3, as stated, fails: the loop has no handler of its own, so a failed sample leaves it.
  With the threshold \<open>10\<close> and three passes, of which the second fails to sample, the
  first prints its normal line, the failure is reported by the handler of
  \<^verbatim>\<open>monitor_cpu\<close>, and the third pass never runs: its sample \<open>15\<close> prints no alert.
\<close>

theorem failed_sample_stops_loop_counterexample:
  "monitor_cpu \<lparr>cpu_threshold = 10, check_interval = 10, is_monitoring = False\<rparr> [\<lparr>cpu_percent = Returned 5, now = ''12:00:00'',
      sleep = Returned (), stop_request = None\<rparr>, \<lparr>cpu_percent = Raised (Exc OSError ''sensor read failed''), now = ''12:00:11'',
      sleep = Returned (), stop_request = None\<rparr>, \<lparr>cpu_percent = Returned 15, now = ''12:00:22'',
      sleep = Returned (), stop_request = None\<rparr>] =
     Some (Returned (), \<lparr>cpu_threshold = 10, check_interval = 10, is_monitoring = False\<rparr>,
       [[Lit ''Starting CPU monitoring (threshold: '', Val (PFloat 10), Lit ''%)...''],
        [Lit ''Press Ctrl+C to stop monitoring''],
        [Lit ''[12:00:00] CPU usage normal: 5.0%''],
        [Lit ''Error during monitoring: sensor read failed'']])"
  by code_simp

text \<open>
  C3, amended: when, after quiet passes, the sample of a pass fails with an instance of
  \<^verbatim>\<open>Exception\<close>, that pass prints no event for a sample, the failure is reported in the
  line \<^verbatim>\<open>Error during monitoring: ...\<close>, the flag is cleared, and \<^verbatim>\<open>monitor_cpu\<close>
  returns normally: the loop ends, whatever passes would follow.
\<close>

theorem failed_sample_stops_loop:
  assumes "\<forall>p\<in>set pre. quiet p" and "0 \<le> check_interval self"
    and "cpu_percent c = Raised e" and "is_Exception (exc_cls e)"
  shows "monitor_cpu self (pre @ c # rest) =
           Some (Returned (), self\<lparr>is_monitoring := False\<rparr>,
             starting_lines self @ concat (map (cycle_lines self) pre) @
             snd (other_thread DuringSample c self) @
             [[Lit (''Error during monitoring: '' @ exc_msg e)]])"
proof -
  let ?s = "self\<lparr>is_monitoring := True\<rparr>"
  have c: "cycle ?s c = (Raised e, fst (other_thread DuringSample c ?s), snd (other_thread DuringSample c self))"
    using assms(3) by (simp add: cycle_def split_beta other_thread_def stop_monitoring_def)
  have "monitor_loop ?s (pre @ c # rest) =
          map_option (\<lambda>(r, s, out'). (r, s, concat (map (cycle_lines ?s) pre) @ out'))
            (monitor_loop ?s (c # rest))"
    using assms(1,2) by (intro loop_quiet_prefix) simp_all
  with c have "monitor_loop ?s (pre @ c # rest) =
      Some (Raised e, fst (other_thread DuringSample c ?s),
            concat (map (cycle_lines self) pre) @ snd (other_thread DuringSample c self))"
    by (simp add: cycle_lines_flag)
  moreover have "(fst (other_thread DuringSample c ?s))\<lparr>is_monitoring := False\<rparr> = self\<lparr>is_monitoring := False\<rparr>"
    by (simp add: other_thread_def stop_monitoring_def)
  moreover from assms(4) have "exc_cls e \<noteq> KeyboardInterrupt" by auto
  ultimately show ?thesis using assms(4) by (simp add: monitor_cpu_eq)
qed

theorem failed_sample_stops_loop_witness:
  "quiet \<lparr>cpu_percent = Returned 5, now = ''12:00:00'',
      sleep = Returned (), stop_request = None\<rparr> \<and> 0 \<le> check_interval \<lparr>cpu_threshold = 10, check_interval = 10, is_monitoring = False\<rparr> \<and>
   cpu_percent \<lparr>cpu_percent = Raised (Exc OSError ''sensor read failed''), now = ''12:00:11'',
      sleep = Returned (), stop_request = None\<rparr> = Raised (Exc OSError ''sensor read failed'') \<and>
   is_Exception (exc_cls (Exc OSError ''sensor read failed'')) \<and>
   monitor_cpu \<lparr>cpu_threshold = 10, check_interval = 10, is_monitoring = False\<rparr> ([\<lparr>cpu_percent = Returned 5, now = ''12:00:00'',
      sleep = Returned (), stop_request = None\<rparr>] @ \<lparr>cpu_percent = Raised (Exc OSError ''sensor read failed''), now = ''12:00:11'',
      sleep = Returned (), stop_request = None\<rparr> # [\<lparr>cpu_percent = Returned 15, now = ''12:00:22'',
      sleep = Returned (), stop_request = None\<rparr>]) =
     Some (Returned (), \<lparr>cpu_threshold = 10, check_interval = 10, is_monitoring = False\<rparr>,
       [[Lit ''Starting CPU monitoring (threshold: '', Val (PFloat 10), Lit ''%)...''],
        [Lit ''Press Ctrl+C to stop monitoring''],
        [Lit ''[12:00:00] CPU usage normal: 5.0%''],
        [Lit ''Error during monitoring: sensor read failed'']])"
proof -
  have q: "\<forall>p\<in>set [\<lparr>cpu_percent = Returned 5, now = ''12:00:00'',
      sleep = Returned (), stop_request = None\<rparr>]. quiet p" by (simp add: quiet_def)
  have i: "0 \<le> check_interval \<lparr>cpu_threshold = 10, check_interval = 10, is_monitoring = False\<rparr>" by simp
  have f: "cpu_percent \<lparr>cpu_percent = Raised (Exc OSError ''sensor read failed''), now = ''12:00:11'',
      sleep = Returned (), stop_request = None\<rparr> = Raised (Exc OSError ''sensor read failed'')" by simp
  have x: "is_Exception (exc_cls (Exc OSError ''sensor read failed''))" by simp
  have l: "starting_lines \<lparr>cpu_threshold = 10, check_interval = 10, is_monitoring = False\<rparr> @ concat (map (cycle_lines \<lparr>cpu_threshold = 10, check_interval = 10, is_monitoring = False\<rparr>) [\<lparr>cpu_percent = Returned 5, now = ''12:00:00'',
      sleep = Returned (), stop_request = None\<rparr>]) @
             snd (other_thread DuringSample \<lparr>cpu_percent = Raised (Exc OSError ''sensor read failed''), now = ''12:00:11'',
      sleep = Returned (), stop_request = None\<rparr> \<lparr>cpu_threshold = 10, check_interval = 10, is_monitoring = False\<rparr>) @
             [[Lit (''Error during monitoring: '' @ exc_msg (Exc OSError ''sensor read failed''))]] =
       [[Lit ''Starting CPU monitoring (threshold: '', Val (PFloat 10), Lit ''%)...''],
        [Lit ''Press Ctrl+C to stop monitoring''],
        [Lit ''[12:00:00] CPU usage normal: 5.0%''],
        [Lit ''Error during monitoring: sensor read failed'']]"
    by code_simp
  from failed_sample_stops_loop [OF q i f x, of "[\<lparr>cpu_percent = Returned 15, now = ''12:00:22'',
      sleep = Returned (), stop_request = None\<rparr>]"] q i f x show ?thesis
    unfolding l by simp
qed

text \<open>
  C6. When \<^verbatim>\<open>stop_monitoring\<close> is called during a pass, after quiet passes, the pass
  runs to its end and the loop leaves at the next test of the flag: a stop during the
  sample is followed by the one event of that sample, a stop during the sleep by none,
  and no pass of the rest of the trace runs.
\<close>

theorem stop_ends_loop_at_next_check:
  assumes "\<forall>p\<in>set pre. quiet p" and "0 \<le> check_interval self"
    and "stop_request c = Some p" and "cpu_percent c = Returned S" and "sleep c = Returned ()"
  shows "monitor_cpu self (pre @ c # rest) =
           Some (Returned (), self\<lparr>is_monitoring := False\<rparr>,
             starting_lines self @ concat (map (cycle_lines self) pre) @
             (case p of
                DuringSample \<Rightarrow> snd (stop_monitoring self) @ sample_event self (now c) S
              | DuringSleep \<Rightarrow> sample_event self (now c) S @ snd (stop_monitoring self)))"
proof -
  let ?s = "self\<lparr>is_monitoring := True\<rparr>"
  let ?ev = "case p of
                DuringSample \<Rightarrow> snd (stop_monitoring self) @ sample_event self (now c) S
              | DuringSleep \<Rightarrow> sample_event self (now c) S @ snd (stop_monitoring self)"
  have c: "cycle ?s c = (Returned (), self\<lparr>is_monitoring := False\<rparr>, ?ev)"
    using assms(2-5)
    by (cases p) (simp_all add: cycle_def split_beta other_thread_def stop_monitoring_def
        sample_event_def Let_def)
  have "monitor_loop (self\<lparr>is_monitoring := False\<rparr>) rest =
          Some (Returned (), self\<lparr>is_monitoring := False\<rparr>, [])"
    by (cases rest) simp_all
  with c have "monitor_loop ?s (c # rest) = Some (Returned (), self\<lparr>is_monitoring := False\<rparr>, ?ev)"
    by simp
  moreover have "monitor_loop ?s (pre @ c # rest) =
          map_option (\<lambda>(r, s, out'). (r, s, concat (map (cycle_lines ?s) pre) @ out'))
            (monitor_loop ?s (c # rest))"
    using assms(1,2) by (intro loop_quiet_prefix) simp_all
  ultimately have "monitor_loop ?s (pre @ c # rest) =
      Some (Returned (), self\<lparr>is_monitoring := False\<rparr>,
            concat (map (cycle_lines self) pre) @ ?ev)"
    by (simp add: cycle_lines_flag)
  then show ?thesis by (simp add: monitor_cpu_eq)
qed

theorem stop_ends_loop_at_next_check_witness:
  "quiet \<lparr>cpu_percent = Returned 5, now = ''12:00:00'',
      sleep = Returned (), stop_request = None\<rparr> \<and> 0 \<le> check_interval \<lparr>cpu_threshold = 10, check_interval = 10, is_monitoring = False\<rparr> \<and>
   stop_request \<lparr>cpu_percent = Returned 15, now = ''12:00:11'',
      sleep = Returned (), stop_request = Some DuringSample\<rparr> = Some DuringSample \<and> cpu_percent \<lparr>cpu_percent = Returned 15, now = ''12:00:11'',
      sleep = Returned (), stop_request = Some DuringSample\<rparr> = Returned 15 \<and>
   sleep \<lparr>cpu_percent = Returned 15, now = ''12:00:11'',
      sleep = Returned (), stop_request = Some DuringSample\<rparr> = Returned () \<and>
   monitor_cpu \<lparr>cpu_threshold = 10, check_interval = 10, is_monitoring = False\<rparr> ([\<lparr>cpu_percent = Returned 5, now = ''12:00:00'',
      sleep = Returned (), stop_request = None\<rparr>] @ \<lparr>cpu_percent = Returned 15, now = ''12:00:11'',
      sleep = Returned (), stop_request = Some DuringSample\<rparr> # [\<lparr>cpu_percent = Returned 15, now = ''12:00:22'',
      sleep = Returned (), stop_request = None\<rparr>]) =
     Some (Returned (), \<lparr>cpu_threshold = 10, check_interval = 10, is_monitoring = False\<rparr>,
       starting_lines \<lparr>cpu_threshold = 10, check_interval = 10, is_monitoring = False\<rparr> @ [[Lit ''[12:00:00] CPU usage normal: 5.0%''],
        [Lit ''Monitoring agent stopped'']] @ alert_high_cpu \<lparr>cpu_threshold = 10, check_interval = 10, is_monitoring = False\<rparr> 15 ''12:00:11'')"
proof -
  have q: "\<forall>p\<in>set [\<lparr>cpu_percent = Returned 5, now = ''12:00:00'',
      sleep = Returned (), stop_request = None\<rparr>]. quiet p" by (simp add: quiet_def)
  have i: "0 \<le> check_interval \<lparr>cpu_threshold = 10, check_interval = 10, is_monitoring = False\<rparr>" by simp
  have l: "concat (map (cycle_lines \<lparr>cpu_threshold = 10, check_interval = 10, is_monitoring = False\<rparr>) [\<lparr>cpu_percent = Returned 5, now = ''12:00:00'',
      sleep = Returned (), stop_request = None\<rparr>]) = [[Lit ''[12:00:00] CPU usage normal: 5.0%'']]"
    by code_simp
  from stop_ends_loop_at_next_check [OF q i, of "\<lparr>cpu_percent = Returned 15, now = ''12:00:11'',
      sleep = Returned (), stop_request = Some DuringSample\<rparr>" DuringSample 15 "[\<lparr>cpu_percent = Returned 15, now = ''12:00:22'',
      sleep = Returned (), stop_request = None\<rparr>]"] q i show ?thesis
    unfolding l by (simp add: sample_event_def stop_monitoring_def)
qed

text \<open>A negative interval is found only by the first \<^verbatim>\<open>time.sleep\<close>, after the first sample
  has printed its event; the handler reports it and the loop ends.\<close>

lemma negative_interval_fails_in_first_pass:
  assumes "check_interval self < 0" and "cpu_percent c = Returned S" and "stop_request c = None"
  shows "monitor_cpu self (c # rest) =
           Some (Returned (), self\<lparr>is_monitoring := False\<rparr>,
             starting_lines self @ sample_event self (now c) S @
             [[Lit ''Error during monitoring: sleep length must be non-negative'']])"
  using assms
  by (simp add: monitor_cpu_eq cycle_def other_thread_def sample_event_def Let_def)

section \<open>Properties of the system readings\<close>

lemma get_system_info_Returned:
  assumes "cpu_count os = Returned cc" and "cpu_freq os = Returned cf"
    and "virtual_memory os = Returned m" and "disk_usage os = Returned d"
  shows "fst (get_system_info self os) = Returned (PDict
          [(''cpu_count'', case cc of Some n \<Rightarrow> PInt n | None \<Rightarrow> PNone),
           (''cpu_frequency'',
              case cf of Some f \<Rightarrow> PFloat (freq_current f) | None \<Rightarrow> PStr ''N/A''),
           (''memory_total'', PInt (vm_total m)),
           (''memory_available'', PInt (vm_available m)),
           (''disk_total'', PInt (du_total d)),
           (''disk_free'', PInt (du_free d))])"
  using assms by (simp add: get_system_info_def)

text \<open>
  C7. \<^verbatim>\<open>get_system_info\<close> leaves the agent as it found it, whatever the flag and
  whatever the queries do. When the four queries return, it returns a dict that holds the
  core count, the frequency or \<^verbatim>\<open>'N/A'\<close> where \<^verbatim>\<open>cpu_freq\<close> returned \<^verbatim>\<open>None\<close>, the total
  and available memory and the total and free disk, as the queries gave them.
\<close>

theorem get_system_info_pure_read:
  "snd (get_system_info self os) = self \<and>
   (cpu_count os = Returned cc \<and> cpu_freq os = Returned cf \<and>
    virtual_memory os = Returned m \<and> disk_usage os = Returned d \<longrightarrow>
    (\<exists>info. get_system_info self os = (Returned info, self) \<and>
       getitem info ''cpu_count'' = Returned (case cc of Some n \<Rightarrow> PInt n | None \<Rightarrow> PNone) \<and>
       getitem info ''cpu_frequency'' =
         Returned (case cf of Some f \<Rightarrow> PFloat (freq_current f) | None \<Rightarrow> PStr ''N/A'') \<and>
       getitem info ''memory_total'' = Returned (PInt (vm_total m)) \<and>
       getitem info ''memory_available'' = Returned (PInt (vm_available m)) \<and>
       getitem info ''disk_total'' = Returned (PInt (du_total d)) \<and>
       getitem info ''disk_free'' = Returned (PInt (du_free d))))"
proof -
  have frame: "snd (get_system_info self os) = self"
    by (simp add: get_system_info_def)
  moreover have "\<exists>info. get_system_info self os = (Returned info, self) \<and>
       getitem info ''cpu_count'' = Returned (case cc of Some n \<Rightarrow> PInt n | None \<Rightarrow> PNone) \<and>
       getitem info ''cpu_frequency'' =
         Returned (case cf of Some f \<Rightarrow> PFloat (freq_current f) | None \<Rightarrow> PStr ''N/A'') \<and>
       getitem info ''memory_total'' = Returned (PInt (vm_total m)) \<and>
       getitem info ''memory_available'' = Returned (PInt (vm_available m)) \<and>
       getitem info ''disk_total'' = Returned (PInt (du_total d)) \<and>
       getitem info ''disk_free'' = Returned (PInt (du_free d))"
    if "cpu_count os = Returned cc" "cpu_freq os = Returned cf"
       "virtual_memory os = Returned m" "disk_usage os = Returned d"
  proof -
    from get_system_info_Returned [OF that] frame
    have "get_system_info self os = (Returned (PDict
          [(''cpu_count'', case cc of Some n \<Rightarrow> PInt n | None \<Rightarrow> PNone),
           (''cpu_frequency'',
              case cf of Some f \<Rightarrow> PFloat (freq_current f) | None \<Rightarrow> PStr ''N/A''),
           (''memory_total'', PInt (vm_total m)),
           (''memory_available'', PInt (vm_available m)),
           (''disk_total'', PInt (du_total d)),
           (''disk_free'', PInt (du_free d))]), self)"
      by (simp add: prod_eq_iff)
    then show ?thesis by simp
  qed
  ultimately show ?thesis by blast
qed

theorem get_system_info_pure_read_witness:
  "get_system_info \<lparr>cpu_threshold = 10, check_interval = 10, is_monitoring = True\<rparr>
     \<lparr>cpu_count = Returned (Some 8), cpu_freq = Returned None,
      virtual_memory = Returned \<lparr>vm_total = 17179869184, vm_available = 8589934592,
                                 vm_percent = 50, vm_free = 4294967296\<rparr>,
      disk_usage = Returned \<lparr>du_total = 536870912000, du_free = 268435456000\<rparr>\<rparr> =
   (Returned (PDict
      [(''cpu_count'', PInt 8), (''cpu_frequency'', PStr ''N/A''),
       (''memory_total'', PInt 17179869184), (''memory_available'', PInt 8589934592),
       (''disk_total'', PInt 536870912000), (''disk_free'', PInt 268435456000)]),
    \<lparr>cpu_threshold = 10, check_interval = 10, is_monitoring = True\<rparr>) \<and>
   getitem (PDict
      [(''cpu_count'', PInt 8), (''cpu_frequency'', PStr ''N/A''),
       (''memory_total'', PInt 17179869184), (''memory_available'', PInt 8589934592),
       (''disk_total'', PInt 536870912000), (''disk_free'', PInt 268435456000)])
     ''cpu_frequency'' = Returned (PStr ''N/A'')"
  using get_system_info_pure_read
    [of "\<lparr>cpu_threshold = 10, check_interval = 10, is_monitoring = True\<rparr>"
        "\<lparr>cpu_count = Returned (Some 8), cpu_freq = Returned None,
      virtual_memory = Returned \<lparr>vm_total = 17179869184, vm_available = 8589934592,
                                 vm_percent = 50, vm_free = 4294967296\<rparr>,
      disk_usage = Returned \<lparr>du_total = 536870912000, du_free = 268435456000\<rparr>\<rparr>"
        "Some 8" None
        "\<lparr>vm_total = 17179869184, vm_available = 8589934592,
                                 vm_percent = 50, vm_free = 4294967296\<rparr>"
        "\<lparr>du_total = 536870912000, du_free = 268435456000\<rparr>"]
  by (simp add: get_system_info_def)







section \<open>Properties of \<^verbatim>\<open>fetch_bitcoin_price\<close>\<close>

lemma getitem_raises_Exception: "getitem v k = Raised e \<Longrightarrow> is_Exception (exc_cls e)"
  by (cases v) (auto simp: not_subscriptable_def split: option.splits)

lemma print_line_Raised: "print_line x = (Raised e, out) \<Longrightarrow> x = Raised e"
  by (cases x) simp_all

lemma bind_result_Raised:
  "bind_result x f = Raised e \<Longrightarrow> x = Raised e \<or> (\<exists>v. x = Returned v \<and> f v = Raised e)"
  by (cases x) simp_all

lemma fetch_body_raises_Exception:
  assumes "raises_Exception_only (requests_get (api_url self))"
    and "\<forall>r. requests_get (api_url self) = Returned r \<longrightarrow> raises_Exception_only (json r)"
    and "fetch_body self requests_get = (Raised e, out)"
  shows "is_Exception (exc_cls e)"
proof (cases "requests_get (api_url self)")
  case (Raised e')
  with assms show ?thesis by (simp add: fetch_body_def raises_Exception_only_def)
next
  case (Returned r)
  show ?thesis
  proof (cases "status_code r = 200")
    case False
    with Returned assms(3) show ?thesis by (simp add: fetch_body_def)
  next
    case True
    from Returned assms(2) have j: "raises_Exception_only (json r)" by simp
    show ?thesis
    proof (cases "json r")
      case (Raised e')
      with j Returned True assms(3) show ?thesis
        by (simp add: fetch_body_def raises_Exception_only_def)
    next
      case data: (Returned data)
      with Returned True assms(3) have "bind_result (getitem data ''bpi'') (\<lambda>bpi.
               bind_result (getitem bpi ''USD'') (\<lambda>usd.
               bind_result (getitem usd ''rate_float'') (\<lambda>bitcoin_price.
                 Returned [Lit ''Current Bitcoin Price (USD): $'', Val bitcoin_price]))) = Raised e"
        by (auto simp: fetch_body_def dest: print_line_Raised)
      then show ?thesis
        by (auto dest!: bind_result_Raised dest: getitem_raises_Exception)
    qed
  qed
qed

text \<open>
  C9. When \<^verbatim>\<open>requests.get\<close> and \<^verbatim>\<open>response.json\<close> raise, if they raise, instances of
  \<^verbatim>\<open>Exception\<close>, \<^verbatim>\<open>fetch_bitcoin_price\<close> returns normally, whatever the status and the
  parsed body are. On a status other than 200 it prints the two lines of the failure and
  returns, whatever \<^verbatim>\<open>response.json\<close> would do: the body is not parsed.
\<close>

theorem fetch_bitcoin_price_never_raises:
  "(raises_Exception_only (requests_get (api_url self)) \<and>
    (\<forall>r. requests_get (api_url self) = Returned r \<longrightarrow> raises_Exception_only (json r)) \<longrightarrow>
    fst (fetch_bitcoin_price self requests_get) = Returned ()) \<and>
   (\<forall>r. requests_get (api_url self) = Returned r \<and> status_code r \<noteq> 200 \<longrightarrow>
      fetch_bitcoin_price self requests_get =
        (Returned (),
         [[Lit ''API request failed with status code: '', Val (PInt (status_code r))],
          [Lit ''Failed to fetch Bitcoin price. Please check the API.'']]))"
proof -
  have a: "fst (fetch_bitcoin_price self requests_get) = Returned ()"
    if h: "raises_Exception_only (requests_get (api_url self))"
      "\<forall>r. requests_get (api_url self) = Returned r \<longrightarrow> raises_Exception_only (json r)"
  proof -
    obtain x out where b: "fetch_body self requests_get = (x, out)"
      by (cases "fetch_body self requests_get") auto
    show ?thesis
    proof (cases x)
      case (Returned u)
      with b show ?thesis by (simp add: fetch_bitcoin_price_def)
    next
      case (Raised e)
      with b h have "is_Exception (exc_cls e)" by (auto dest: fetch_body_raises_Exception)
      with b Raised show ?thesis by (simp add: fetch_bitcoin_price_def)
    qed
  qed
  have b: "fetch_bitcoin_price self requests_get =
        (Returned (),
         [[Lit ''API request failed with status code: '', Val (PInt (status_code r))],
          [Lit ''Failed to fetch Bitcoin price. Please check the API.'']])"
    if "requests_get (api_url self) = Returned r" "status_code r \<noteq> 200" for r
    using that by (simp add: fetch_bitcoin_price_def fetch_body_def)
  from a b show ?thesis by blast
qed

theorem fetch_bitcoin_price_never_raises_witness:
  "raises_Exception_only
     (Returned \<lparr>status_code = 200, json = Raised (Exc ValueError ''Expecting value'')\<rparr>) \<and>
   raises_Exception_only (Raised (Exc ValueError ''Expecting value'') :: pyval result) \<and>
   fetch_bitcoin_price \<lparr>api_url = ''https://api.coindesk.com/v1/bpi/currentprice/USD.json''\<rparr>
     (\<lambda>url. Returned \<lparr>status_code = 200, json = Raised (Exc ValueError ''Expecting value'')\<rparr>) =
   (Returned (), [[Lit ''An unexpected error occurred: Expecting value'']])"
proof -
  have r: "fetch_bitcoin_price
     \<lparr>api_url = ''https://api.coindesk.com/v1/bpi/currentprice/USD.json''\<rparr>
     (\<lambda>url. Returned \<lparr>status_code = 200, json = Raised (Exc ValueError ''Expecting value'')\<rparr>) =
   (Returned (), [[Lit ''An unexpected error occurred: Expecting value'']])"
    by code_simp
  from fetch_bitcoin_price_never_raises
    [of "\<lambda>url. Returned \<lparr>status_code = 200, json = Raised (Exc ValueError ''Expecting value'')\<rparr>"
        "\<lparr>api_url = ''https://api.coindesk.com/v1/bpi/currentprice/USD.json''\<rparr>"] r
  show ?thesis by (simp add: raises_Exception_only_def)
qed

end
